theory Spec2Isabelle
  imports Main
begin

section \<open>Data model\<close>

text \<open>
  The viewsets of \<^verbatim>\<open>listings/views.py\<close> operate on the models \<^verbatim>\<open>Booking\<close>,
  \<^verbatim>\<open>Property\<close> and \<^verbatim>\<open>User\<close>. Primary keys reach the views as the \<^verbatim>\<open>pk\<close> segment of the
  URL, a string.
\<close>

type_synonym ident = string

text \<open>
  Modelled from the spec: \<^verbatim>\<open>listings/models.py\<close> is not part of the sources. The fields
  are the attributes of a Booking listed in section 3 of the specification, under the
  names the viewset uses in \<^verbatim>\<open>filterset_fields\<close> and \<^verbatim>\<open>ordering_fields\<close>. The status is
  a string, as the comparisons in \<^verbatim>\<open>confirm\<close> and \<^verbatim>\<open>cancel\<close> treat it.
\<close>

record Booking =
  booking_id :: ident
  property_obj :: ident
  user :: ident
  start_date :: nat
  end_date :: nat
  status :: string
  created_at :: nat

text \<open>
  Modelled from the spec: the fields of \<^verbatim>\<open>Property\<close> named by \<^verbatim>\<open>PropertyViewSet\<close>; \<^verbatim>\<open>host\<close>
  is the foreign key behind the reverse relation \<^verbatim>\<open>user.properties\<close>.
\<close>

record Property =
  property_id :: ident
  host :: ident
  name :: string
  description :: string
  location :: string
  pricepernight :: nat

text \<open>Modelled from the spec: the fields of \<^verbatim>\<open>User\<close> named by \<^verbatim>\<open>UserViewSet\<close>.\<close>

record User =
  user_id :: ident
  first_name :: string
  last_name :: string
  email :: string
  role :: string

text \<open>
  Modelled from the spec: the closed set of status values of section 3 (the choices of the
  status field are declared in \<^verbatim>\<open>models.py\<close>).
\<close>

definition STATUS_CHOICES :: "string list" where
  "STATUS_CHOICES = [''pending'', ''confirmed'', ''canceled'']"

text \<open>
  The persistence store: one list of rows per table. \<open>writes\<close> records every call of
  \<^verbatim>\<open>booking.save()\<close>, in order, with the instance that was written.
\<close>

record database =
  booking_rows :: "Booking list"
  property_rows :: "Property list"
  user_rows :: "User list"
  writes :: "Booking list"

section \<open>Responses\<close>

text \<open>
  \<^verbatim>\<open>Response(data, status=...)\<close>. The data is either the dictionary \<^verbatim>\<open>{"error": msg}\<close>, the
  output of a serializer on one instance, or the output of a serializer with
  \<^verbatim>\<open>many=True\<close>. The serializers live in \<^verbatim>\<open>serializers.py\<close>, which is not part of the
  sources: each operation takes its serializer as a parameter.
\<close>

datatype 'j body = ErrorDict string | Serialized 'j | SerializedMany "'j list"

datatype 'j response = Response (data: "'j body") (status_code: nat)

definition HTTP_200_OK :: nat where
  "HTTP_200_OK = 200"

definition HTTP_400_BAD_REQUEST :: nat where
  "HTTP_400_BAD_REQUEST = 400"

text \<open>
  The exceptions a call of \<^verbatim>\<open>self.get_object()\<close> can leave the view with: \<^verbatim>\<open>Http404\<close> when
  no row of the filtered queryset has the primary key, \<^verbatim>\<open>ValidationError\<close> when a filter
  backend rejects the query parameters.
\<close>

datatype exn = Http404 | ValidationError

definition is_success :: "exn + 'j response \<Rightarrow> bool" where
  "is_success r = (case r of Inl e \<Rightarrow> False
     | Inr resp \<Rightarrow> 200 \<le> status_code resp \<and> status_code resp \<le> 299)"

definition is_client_error :: "exn + 'j response \<Rightarrow> bool" where
  "is_client_error r = (case r of Inl e \<Rightarrow> False
     | Inr resp \<Rightarrow> 400 \<le> status_code resp \<and> status_code resp \<le> 499)"

section \<open>Collaborators: request, filtering, lookup and save\<close>

text \<open>
  What the views read of the request: its query parameters, which the filter backends
  of the viewset interpret.
\<close>

record request =
  query_params :: "(string \<times> string) list"

text \<open>
  A filter backend (\<^verbatim>\<open>DjangoFilterBackend\<close>, \<^verbatim>\<open>SearchFilter\<close>, \<^verbatim>\<open>OrderingFilter\<close>) maps the
  request and a queryset to a queryset, or raises. The backends are framework code: every
  operation takes the list \<^verbatim>\<open>filter_backends\<close> of its viewset as a parameter.
\<close>

type_synonym 'r backend = "request \<Rightarrow> 'r list \<Rightarrow> exn + 'r list"

text \<open>
  \<^verbatim>\<open>self.filter_queryset(queryset)\<close>: the backends are applied in the order of the
  declaration, each to the result of the one before.
\<close>

fun filter_queryset :: "'r backend list \<Rightarrow> request \<Rightarrow> 'r list \<Rightarrow> exn + 'r list" where
  "filter_queryset [] request queryset = Inr queryset"
| "filter_queryset (backend # backends) request queryset =
     (case backend request queryset of
        Inl e \<Rightarrow> Inl e
      | Inr queryset' \<Rightarrow> filter_queryset backends request queryset')"

text \<open>
  \<^verbatim>\<open>get_object_or_404(queryset, pk=pk)\<close>: the row of the queryset whose primary key is
  \<^verbatim>\<open>pk\<close>, or \<^verbatim>\<open>Http404\<close>.
\<close>

definition get_object_or_404 :: "('r \<Rightarrow> ident) \<Rightarrow> 'r list \<Rightarrow> ident \<Rightarrow> exn + 'r" where
  "get_object_or_404 key queryset pk =
     (case find (\<lambda>r. key r = pk) queryset of
        None \<Rightarrow> Inl Http404
      | Some r \<Rightarrow> Inr r)"

text \<open>
  \<^verbatim>\<open>self.get_object()\<close>: the lookup by primary key in the queryset of the viewset as the
  filter backends leave it for this request. A row that the query parameters exclude is
  not found.
\<close>

definition get_object ::
  "('r \<Rightarrow> ident) \<Rightarrow> 'r backend list \<Rightarrow> request \<Rightarrow> 'r list \<Rightarrow> ident \<Rightarrow> exn + 'r" where
  "get_object key filter_backends request queryset pk =
     (case filter_queryset filter_backends request queryset of
        Inl e \<Rightarrow> Inl e
      | Inr queryset' \<Rightarrow> get_object_or_404 key queryset' pk)"

text \<open>
  \<^verbatim>\<open>booking.save()\<close>: an update of the rows with the instance's primary key, an insert when
  there is none; the call is recorded in \<open>writes\<close>.
\<close>

definition save :: "Booking \<Rightarrow> database \<Rightarrow> database" where
  "save booking db =
     db\<lparr>booking_rows :=
          (if list_ex (\<lambda>r. booking_id r = booking_id booking) (booking_rows db)
           then map (\<lambda>r. if booking_id r = booking_id booking then booking else r)
                  (booking_rows db)
           else booking_rows db @ [booking]),
        writes := writes db @ [booking]\<rparr>"

section \<open>BookingViewSet\<close>

definition confirm ::
  "(Booking \<Rightarrow> 'j) \<Rightarrow> Booking backend list \<Rightarrow> request \<Rightarrow> database \<Rightarrow> ident
     \<Rightarrow> (exn + 'j response) \<times> database" where
  "confirm BookingDetailSerializer filter_backends request db pk =
     (case get_object booking_id filter_backends request (booking_rows db) pk of
        Inl e \<Rightarrow> (Inl e, db)
      | Inr booking \<Rightarrow>
          if status booking \<noteq> ''pending''
          then (Inr (Response (ErrorDict ''Only pending bookings can be confirmed.'')
                       HTTP_400_BAD_REQUEST), db)
          else let booking' = booking\<lparr>status := ''confirmed''\<rparr>;
                   db' = save booking' db
               in (Inr (Response (Serialized (BookingDetailSerializer booking'))
                          HTTP_200_OK), db'))"

definition cancel ::
  "(Booking \<Rightarrow> 'j) \<Rightarrow> Booking backend list \<Rightarrow> request \<Rightarrow> database \<Rightarrow> ident
     \<Rightarrow> (exn + 'j response) \<times> database" where
  "cancel BookingDetailSerializer filter_backends request db pk =
     (case get_object booking_id filter_backends request (booking_rows db) pk of
        Inl e \<Rightarrow> (Inl e, db)
      | Inr booking \<Rightarrow>
          if status booking = ''canceled''
          then (Inr (Response (ErrorDict ''Booking is already canceled.'')
                       HTTP_400_BAD_REQUEST), db)
          else let booking' = booking\<lparr>status := ''canceled''\<rparr>;
                   db' = save booking' db
               in (Inr (Response (Serialized (BookingDetailSerializer booking'))
                          HTTP_200_OK), db'))"

section \<open>UserViewSet\<close>

text \<open>
  \<^verbatim>\<open>user.properties.all()\<close> is the reverse of the foreign key \<^verbatim>\<open>host\<close>: the properties whose
  host is the user.
\<close>

definition properties_of :: "database \<Rightarrow> User \<Rightarrow> Property list" where
  "properties_of db u = filter (\<lambda>p. host p = user_id u) (property_rows db)"

definition properties ::
  "(Property \<Rightarrow> 'j) \<Rightarrow> User backend list \<Rightarrow> request \<Rightarrow> database \<Rightarrow> ident
     \<Rightarrow> exn + 'j response" where
  "properties PropertyListSerializer filter_backends request db pk =
     (case get_object user_id filter_backends request (user_rows db) pk of
        Inl e \<Rightarrow> Inl e
      | Inr u \<Rightarrow>
          if role u \<notin> set [''host'', ''admin'']
          then Inr (Response (ErrorDict ''User is not a host or admin.'')
                      HTTP_400_BAD_REQUEST)
          else Inr (Response (SerializedMany (map PropertyListSerializer (properties_of db u)))
                      HTTP_200_OK))"

section \<open>Sample data\<close>

definition bk_pending :: Booking where
  "bk_pending = \<lparr>booking_id = ''b1'', property_obj = ''p1'', user = ''u2'',
     start_date = 10, end_date = 12, status = ''pending'', created_at = 1\<rparr>"

definition bk_confirmed :: Booking where
  "bk_confirmed = \<lparr>booking_id = ''b2'', property_obj = ''p1'', user = ''u2'',
     start_date = 20, end_date = 25, status = ''confirmed'', created_at = 2\<rparr>"

definition bk_canceled :: Booking where
  "bk_canceled = \<lparr>booking_id = ''b3'', property_obj = ''p2'', user = ''u2'',
     start_date = 30, end_date = 31, status = ''canceled'', created_at = 3\<rparr>"

definition bk_archived :: Booking where
  "bk_archived = \<lparr>booking_id = ''b4'', property_obj = ''p2'', user = ''u2'',
     start_date = 40, end_date = 41, status = ''archived'', created_at = 4\<rparr>"

definition usr_host :: User where
  "usr_host = \<lparr>user_id = ''u1'', first_name = ''Ada'', last_name = ''Host'',
     email = ''ada@example.com'', role = ''host''\<rparr>"

definition usr_guest :: User where
  "usr_guest = \<lparr>user_id = ''u2'', first_name = ''Bob'', last_name = ''Guest'',
     email = ''bob@example.com'', role = ''guest''\<rparr>"

definition prop_one :: Property where
  "prop_one = \<lparr>property_id = ''p1'', host = ''u1'', name = ''Cabin'',
     description = ''By the lake'', location = ''Bahir Dar'', pricepernight = 80\<rparr>"

definition prop_two :: Property where
  "prop_two = \<lparr>property_id = ''p2'', host = ''u3'', name = ''Loft'',
     description = ''Downtown'', location = ''Addis Ababa'', pricepernight = 120\<rparr>"

definition db0 :: database where
  "db0 = \<lparr>booking_rows = [bk_pending, bk_confirmed, bk_canceled, bk_archived],
     property_rows = [prop_one, prop_two],
     user_rows = [usr_host, usr_guest],
     writes = []\<rparr>"

text \<open>
  A filter backend for the examples: exact match of one field against the query parameter
  of the same name, no filtering when the parameter is absent. The sample backends of the
  two viewsets stand for \<^verbatim>\<open>DjangoFilterBackend\<close> on the fields of their
  \<^verbatim>\<open>filterset_fields\<close>; ordering is left out of the samples, since a lookup by primary
  key does not observe it. The theorems below hold for every list of backends.
\<close>

definition exact_filter :: "string \<Rightarrow> ('r \<Rightarrow> string) \<Rightarrow> 'r backend" where
  "exact_filter param field request queryset =
     (case map_of (query_params request) param of
        None \<Rightarrow> Inr queryset
      | Some v \<Rightarrow> Inr (filter (\<lambda>r. field r = v) queryset))"

definition booking_filters :: "Booking backend list" where
  "booking_filters = [exact_filter ''property_obj'' property_obj,
     exact_filter ''user'' user, exact_filter ''status'' status]"

definition user_filters :: "User backend list" where
  "user_filters = [exact_filter ''role'' role]"

definition rq_plain :: request where
  "rq_plain = \<lparr>query_params = []\<rparr>"

definition rq_status_canceled :: request where
  "rq_status_canceled = \<lparr>query_params = [(''status'', ''canceled'')]\<rparr>"

definition rq_role_guest :: request where
  "rq_role_guest = \<lparr>query_params = [(''role'', ''guest'')]\<rparr>"

lemmas sample_defs =
  bk_pending_def bk_confirmed_def bk_canceled_def bk_archived_def
  usr_host_def usr_guest_def prop_one_def prop_two_def db0_def
  exact_filter_def booking_filters_def user_filters_def
  rq_plain_def rq_status_canceled_def rq_role_guest_def

section \<open>Lookup and save\<close>

lemma get_object_or_404_key:
  "get_object_or_404 key queryset pk = Inr r \<Longrightarrow> key r = pk"
  by (auto simp: get_object_or_404_def find_Some_iff split: option.splits)

lemma get_object_key:
  "get_object key filter_backends request queryset pk = Inr r \<Longrightarrow> key r = pk"
  by (auto simp: get_object_def dest: get_object_or_404_key split: sum.splits)

lemma find_replace:
  "list_ex (\<lambda>r. key r = key b) rows \<Longrightarrow>
   find (\<lambda>r. key r = key b) (map (\<lambda>r. if key r = key b then b else r) rows) = Some b"
  by (induction rows) auto

lemma find_append_new:
  "\<not> list_ex P rows \<Longrightarrow> P b \<Longrightarrow> find P (rows @ [b]) = Some b"
  by (induction rows) auto

lemma find_replace_other:
  "k \<noteq> key b \<Longrightarrow>
   find (\<lambda>r. key r = k) (map (\<lambda>r. if key r = key b then b else r) rows)
     = find (\<lambda>r. key r = k) rows"
  by (induction rows) auto

lemma find_append_other:
  "\<not> P b \<Longrightarrow> find P (rows @ [b]) = find P rows"
  by (induction rows) auto

lemma stored_after_save:
  "get_object_or_404 booking_id (booking_rows (save b' db)) (booking_id b') = Inr b'"
proof (cases "list_ex (\<lambda>r. booking_id r = booking_id b') (booking_rows db)")
  case True
  from find_replace [of booking_id b', OF True] True show ?thesis
    by (simp add: save_def get_object_or_404_def)
next
  case False
  from find_append_new [of "\<lambda>r. booking_id r = booking_id b'", OF False] False
  show ?thesis
    by (simp add: save_def get_object_or_404_def)
qed

lemma stored_after_save_other:
  "k \<noteq> booking_id b' \<Longrightarrow>
   get_object_or_404 booking_id (booking_rows (save b' db)) k
     = get_object_or_404 booking_id (booking_rows db) k"
  by (simp add: save_def get_object_or_404_def find_replace_other find_append_other)

lemma writes_save: "writes (save b db) = writes db @ [b]"
  by (simp add: save_def)

section \<open>The branches of the transitions\<close>

lemma confirm_pending_result:
  assumes "get_object booking_id fb rq (booking_rows db) pk = Inr b"
    and "status b = ''pending''"
  shows "confirm ser fb rq db pk =
     (Inr (Response (Serialized (ser (b\<lparr>status := ''confirmed''\<rparr>))) 200),
      save (b\<lparr>status := ''confirmed''\<rparr>) db)"
  using assms by (simp add: confirm_def HTTP_200_OK_def Let_def)

lemma confirm_not_pending_result:
  assumes "get_object booking_id fb rq (booking_rows db) pk = Inr b"
    and "status b \<noteq> ''pending''"
  shows "confirm ser fb rq db pk =
     (Inr (Response (ErrorDict ''Only pending bookings can be confirmed.'') 400), db)"
  using assms by (simp add: confirm_def HTTP_400_BAD_REQUEST_def)

lemma cancel_not_canceled_result:
  assumes "get_object booking_id fb rq (booking_rows db) pk = Inr b"
    and "status b \<noteq> ''canceled''"
  shows "cancel ser fb rq db pk =
     (Inr (Response (Serialized (ser (b\<lparr>status := ''canceled''\<rparr>))) 200),
      save (b\<lparr>status := ''canceled''\<rparr>) db)"
  using assms by (simp add: cancel_def HTTP_200_OK_def Let_def)

lemma cancel_canceled_result:
  assumes "get_object booking_id fb rq (booking_rows db) pk = Inr b"
    and "status b = ''canceled''"
  shows "cancel ser fb rq db pk =
     (Inr (Response (ErrorDict ''Booking is already canceled.'') 400), db)"
  using assms by (simp add: cancel_def HTTP_400_BAD_REQUEST_def)

lemma confirm_not_found:
  "get_object booking_id fb rq (booking_rows db) pk = Inl e \<Longrightarrow>
   confirm ser fb rq db pk = (Inl e, db)"
  by (simp add: confirm_def)

lemma cancel_not_found:
  "get_object booking_id fb rq (booking_rows db) pk = Inl e \<Longrightarrow>
   cancel ser fb rq db pk = (Inl e, db)"
  by (simp add: cancel_def)

section \<open>The sample store under plain and filtering requests\<close>

lemma get_object_sample:
  "get_object booking_id booking_filters rq_plain (booking_rows db0) ''b1'' = Inr bk_pending"
  "get_object booking_id booking_filters rq_plain (booking_rows db0) ''b2'' = Inr bk_confirmed"
  "get_object booking_id booking_filters rq_plain (booking_rows db0) ''b3'' = Inr bk_canceled"
  "get_object booking_id booking_filters rq_plain (booking_rows db0) ''b4'' = Inr bk_archived"
  by (simp_all add: get_object_def get_object_or_404_def sample_defs)

lemma get_object_user_sample:
  "get_object user_id user_filters rq_plain (user_rows db0) ''u1'' = Inr usr_host"
  "get_object user_id user_filters rq_plain (user_rows db0) ''u2'' = Inr usr_guest"
  by (simp_all add: get_object_def get_object_or_404_def sample_defs)

text \<open>
  A query parameter that excludes the row makes the lookup fail: the pending booking
  \<open>b1\<close> is not found under \<^verbatim>\<open>?status=canceled\<close>, and neither transition touches the store;
  the host \<open>u1\<close> is not found under \<^verbatim>\<open>?role=guest\<close>.
\<close>

lemma hidden_by_filter_sample:
  "get_object booking_id booking_filters rq_status_canceled (booking_rows db0) ''b1''
     = Inl Http404"
  "confirm id booking_filters rq_status_canceled db0 ''b1'' = (Inl Http404, db0)"
  "cancel id booking_filters rq_status_canceled db0 ''b1'' = (Inl Http404, db0)"
  "properties id user_filters rq_role_guest db0 ''u1'' = Inl Http404"
  by (simp_all add: confirm_def cancel_def properties_def get_object_def
        get_object_or_404_def sample_defs)

section \<open>The stored row after a transition\<close>

lemma confirm_lookup:
  "get_object_or_404 booking_id (booking_rows (snd (confirm ser fb rq db pk))) k =
     (case get_object booking_id fb rq (booking_rows db) pk of
        Inl e \<Rightarrow> get_object_or_404 booking_id (booking_rows db) k
      | Inr c \<Rightarrow> if k = pk \<and> status c = ''pending''
                 then Inr (c\<lparr>status := ''confirmed''\<rparr>)
                 else get_object_or_404 booking_id (booking_rows db) k)"
proof (cases "get_object booking_id fb rq (booking_rows db) pk")
  case (Inl e)
  then show ?thesis
    by (simp add: confirm_not_found)
next
  case (Inr c)
  then have key: "booking_id c = pk"
    by (rule get_object_key)
  show ?thesis
  proof (cases "status c = ''pending''")
    case True
    have snd_eq: "snd (confirm ser fb rq db pk) = save (c\<lparr>status := ''confirmed''\<rparr>) db"
      by (simp add: confirm_pending_result [OF Inr True])
    show ?thesis
    proof (cases "k = pk")
      case True
      from stored_after_save [of "c\<lparr>status := ''confirmed''\<rparr>" db]
        Inr \<open>status c = ''pending''\<close> key snd_eq True
      show ?thesis by simp
    next
      case False
      with key snd_eq Inr show ?thesis
        by (simp add: stored_after_save_other)
    qed
  next
    case False
    with Inr show ?thesis
      by (simp add: confirm_not_pending_result)
  qed
qed

lemma cancel_lookup:
  "get_object_or_404 booking_id (booking_rows (snd (cancel ser fb rq db pk))) k =
     (case get_object booking_id fb rq (booking_rows db) pk of
        Inl e \<Rightarrow> get_object_or_404 booking_id (booking_rows db) k
      | Inr c \<Rightarrow> if k = pk \<and> status c \<noteq> ''canceled''
                 then Inr (c\<lparr>status := ''canceled''\<rparr>)
                 else get_object_or_404 booking_id (booking_rows db) k)"
proof (cases "get_object booking_id fb rq (booking_rows db) pk")
  case (Inl e)
  then show ?thesis
    by (simp add: cancel_not_found)
next
  case (Inr c)
  then have key: "booking_id c = pk"
    by (rule get_object_key)
  show ?thesis
  proof (cases "status c = ''canceled''")
    case False
    have snd_eq: "snd (cancel ser fb rq db pk) = save (c\<lparr>status := ''canceled''\<rparr>) db"
      by (simp add: cancel_not_canceled_result [OF Inr False])
    show ?thesis
    proof (cases "k = pk")
      case True
      from stored_after_save [of "c\<lparr>status := ''canceled''\<rparr>" db]
        Inr \<open>status c \<noteq> ''canceled''\<close> key snd_eq True
      show ?thesis by simp
    next
      case False
      with key snd_eq Inr show ?thesis
        by (simp add: stored_after_save_other)
    qed
  next
    case True
    with Inr show ?thesis
      by (simp add: cancel_canceled_result)
  qed
qed

section \<open>Properties of the transitions\<close>

text \<open>
  C1. For every booking with status \<open>pending\<close> that the request's lookup resolves,
  \<open>confirm\<close> succeeds: the response is 200 with the serialized booking whose status is now
  \<open>confirmed\<close>, exactly that instance is saved, and the row stored under the primary key
  afterwards is that instance, with status \<open>confirmed\<close>.
\<close>

theorem confirm_pending_succeeds:
  assumes "get_object booking_id fb rq (booking_rows db) pk = Inr b"
    and "status b = ''pending''"
  shows "fst (confirm ser fb rq db pk)
           = Inr (Response (Serialized (ser (b\<lparr>status := ''confirmed''\<rparr>))) 200)
       \<and> is_success (fst (confirm ser fb rq db pk))
       \<and> snd (confirm ser fb rq db pk) = save (b\<lparr>status := ''confirmed''\<rparr>) db
       \<and> get_object_or_404 booking_id (booking_rows (snd (confirm ser fb rq db pk))) pk
           = Inr (b\<lparr>status := ''confirmed''\<rparr>)
       \<and> status (b\<lparr>status := ''confirmed''\<rparr>) = ''confirmed''"
proof -
  from assms(1) have "booking_id (b\<lparr>status := ''confirmed''\<rparr>) = pk"
    by (simp add: get_object_key)
  with stored_after_save [of "b\<lparr>status := ''confirmed''\<rparr>" db]
    confirm_pending_result [OF assms, of ser]
  show ?thesis by (simp add: is_success_def)
qed

theorem confirm_pending_succeeds_witness:
  "get_object booking_id booking_filters rq_plain (booking_rows db0) ''b1'' = Inr bk_pending
   \<and> status bk_pending = ''pending''
   \<and> fst (confirm id booking_filters rq_plain db0 ''b1'')
       = Inr (Response (Serialized (id (bk_pending\<lparr>status := ''confirmed''\<rparr>))) 200)
   \<and> get_object_or_404 booking_id
        (booking_rows (snd (confirm id booking_filters rq_plain db0 ''b1''))) ''b1''
       = Inr (bk_pending\<lparr>status := ''confirmed''\<rparr>)"
proof -
  have h1: "get_object booking_id booking_filters rq_plain (booking_rows db0) ''b1''
      = Inr bk_pending"
    by (rule get_object_sample)
  have h2: "status bk_pending = ''pending''"
    by (simp add: bk_pending_def)
  from confirm_pending_succeeds [OF h1 h2, of id] h1 h2 show ?thesis
    by blast
qed

text \<open>
  C2. For every booking with status \<open>pending\<close> or \<open>confirmed\<close> that the request's lookup
  resolves, \<open>cancel\<close> succeeds: the response is 200 with the serialized booking whose
  status is now \<open>canceled\<close>, that instance is saved, and the row stored under the primary
  key afterwards is that instance, with status \<open>canceled\<close>, whichever of the two states
  held before.
\<close>

theorem cancel_active_succeeds:
  assumes "get_object booking_id fb rq (booking_rows db) pk = Inr b"
    and "status b = ''pending'' \<or> status b = ''confirmed''"
  shows "fst (cancel ser fb rq db pk)
           = Inr (Response (Serialized (ser (b\<lparr>status := ''canceled''\<rparr>))) 200)
       \<and> is_success (fst (cancel ser fb rq db pk))
       \<and> snd (cancel ser fb rq db pk) = save (b\<lparr>status := ''canceled''\<rparr>) db
       \<and> get_object_or_404 booking_id (booking_rows (snd (cancel ser fb rq db pk))) pk
           = Inr (b\<lparr>status := ''canceled''\<rparr>)
       \<and> status (b\<lparr>status := ''canceled''\<rparr>) = ''canceled''"
proof -
  from assms(2) have ne: "status b \<noteq> ''canceled''"
    by auto
  from assms(1) have "booking_id (b\<lparr>status := ''canceled''\<rparr>) = pk"
    by (simp add: get_object_key)
  with stored_after_save [of "b\<lparr>status := ''canceled''\<rparr>" db]
    cancel_not_canceled_result [OF assms(1) ne, of ser]
  show ?thesis by (simp add: is_success_def)
qed

theorem cancel_active_succeeds_witness:
  "get_object booking_id booking_filters rq_plain (booking_rows db0) ''b1'' = Inr bk_pending
   \<and> (status bk_pending = ''pending'' \<or> status bk_pending = ''confirmed'')
   \<and> get_object_or_404 booking_id
        (booking_rows (snd (cancel id booking_filters rq_plain db0 ''b1''))) ''b1''
       = Inr (bk_pending\<lparr>status := ''canceled''\<rparr>)
   \<and> get_object booking_id booking_filters rq_plain (booking_rows db0) ''b2'' = Inr bk_confirmed
   \<and> (status bk_confirmed = ''pending'' \<or> status bk_confirmed = ''confirmed'')
   \<and> get_object_or_404 booking_id
        (booking_rows (snd (cancel id booking_filters rq_plain db0 ''b2''))) ''b2''
       = Inr (bk_confirmed\<lparr>status := ''canceled''\<rparr>)"
proof -
  have p1: "get_object booking_id booking_filters rq_plain (booking_rows db0) ''b1''
      = Inr bk_pending"
    and c1: "get_object booking_id booking_filters rq_plain (booking_rows db0) ''b2''
      = Inr bk_confirmed"
    by (rule get_object_sample)+
  have p2: "status bk_pending = ''pending'' \<or> status bk_pending = ''confirmed''"
    and c2: "status bk_confirmed = ''pending'' \<or> status bk_confirmed = ''confirmed''"
    by (simp_all add: bk_pending_def bk_confirmed_def)
  from cancel_active_succeeds [OF p1 p2, of id] cancel_active_succeeds [OF c1 c2, of id]
    p1 p2 c1 c2
  show ?thesis by blast
qed

text \<open>
  C3. For every booking with status \<open>confirmed\<close> or \<open>canceled\<close> that the request's lookup
  resolves, \<open>confirm\<close> answers 400 with the message "Only pending bookings can be
  confirmed.", the store is left as it was and the booking keeps its status.
\<close>

theorem confirm_rejects_non_pending:
  assumes "get_object booking_id fb rq (booking_rows db) pk = Inr b"
    and "status b = ''confirmed'' \<or> status b = ''canceled''"
  shows "fst (confirm ser fb rq db pk)
           = Inr (Response (ErrorDict ''Only pending bookings can be confirmed.'') 400)
       \<and> is_client_error (fst (confirm ser fb rq db pk))
       \<and> snd (confirm ser fb rq db pk) = db
       \<and> get_object booking_id fb rq (booking_rows (snd (confirm ser fb rq db pk))) pk = Inr b"
proof -
  from assms(2) have "status b \<noteq> ''pending''"
    by auto
  from confirm_not_pending_result [OF assms(1) this, of ser] assms(1)
  show ?thesis by (simp add: is_client_error_def)
qed

theorem confirm_rejects_non_pending_witness:
  "get_object booking_id booking_filters rq_plain (booking_rows db0) ''b2'' = Inr bk_confirmed
   \<and> (status bk_confirmed = ''confirmed'' \<or> status bk_confirmed = ''canceled'')
   \<and> fst (confirm id booking_filters rq_plain db0 ''b2'')
       = Inr (Response (ErrorDict ''Only pending bookings can be confirmed.'') 400)
   \<and> snd (confirm id booking_filters rq_plain db0 ''b2'') = db0
   \<and> get_object booking_id booking_filters rq_plain (booking_rows db0) ''b3'' = Inr bk_canceled
   \<and> (status bk_canceled = ''confirmed'' \<or> status bk_canceled = ''canceled'')
   \<and> fst (confirm id booking_filters rq_plain db0 ''b3'')
       = Inr (Response (ErrorDict ''Only pending bookings can be confirmed.'') 400)
   \<and> snd (confirm id booking_filters rq_plain db0 ''b3'') = db0"
proof -
  have c1: "get_object booking_id booking_filters rq_plain (booking_rows db0) ''b2''
      = Inr bk_confirmed"
    and x1: "get_object booking_id booking_filters rq_plain (booking_rows db0) ''b3''
      = Inr bk_canceled"
    by (rule get_object_sample)+
  have c2: "status bk_confirmed = ''confirmed'' \<or> status bk_confirmed = ''canceled''"
    and x2: "status bk_canceled = ''confirmed'' \<or> status bk_canceled = ''canceled''"
    by (simp_all add: bk_confirmed_def bk_canceled_def)
  from confirm_rejects_non_pending [OF c1 c2, of id]
    confirm_rejects_non_pending [OF x1 x2, of id] c1 c2 x1 x2
  show ?thesis by blast
qed

text \<open>
  C4. For every booking with status \<open>canceled\<close> that the request's lookup resolves,
  \<open>cancel\<close> answers 400 with the message "Booking is already canceled.", the store is
  left as it was and the booking keeps its status.
\<close>

theorem cancel_rejects_canceled:
  assumes "get_object booking_id fb rq (booking_rows db) pk = Inr b"
    and "status b = ''canceled''"
  shows "fst (cancel ser fb rq db pk)
           = Inr (Response (ErrorDict ''Booking is already canceled.'') 400)
       \<and> is_client_error (fst (cancel ser fb rq db pk))
       \<and> snd (cancel ser fb rq db pk) = db
       \<and> get_object booking_id fb rq (booking_rows (snd (cancel ser fb rq db pk))) pk = Inr b"
  using cancel_canceled_result [OF assms, of ser] assms(1)
  by (simp add: is_client_error_def)

theorem cancel_rejects_canceled_witness:
  "get_object booking_id booking_filters rq_status_canceled (booking_rows db0) ''b3''
     = Inr bk_canceled
   \<and> status bk_canceled = ''canceled''
   \<and> fst (cancel id booking_filters rq_status_canceled db0 ''b3'')
       = Inr (Response (ErrorDict ''Booking is already canceled.'') 400)
   \<and> snd (cancel id booking_filters rq_status_canceled db0 ''b3'') = db0"
proof -
  have x1: "get_object booking_id booking_filters rq_status_canceled (booking_rows db0) ''b3''
      = Inr bk_canceled"
    by (simp add: get_object_def get_object_or_404_def sample_defs)
  have x2: "status bk_canceled = ''canceled''"
    by (simp add: bk_canceled_def)
  from cancel_rejects_canceled [OF x1 x2, of id] x1 x2 show ?thesis
    by blast
qed

text \<open>
  C5, as stated, fails: a booking with status \<open>confirmed\<close> is moved to \<open>canceled\<close> by
  \<open>cancel\<close>.
\<close>

theorem confirmed_not_terminal_counterexample:
  "get_object booking_id booking_filters rq_plain (booking_rows db0) ''b2'' = Inr bk_confirmed
   \<and> status bk_confirmed = ''confirmed''
   \<and> get_object_or_404 booking_id
        (booking_rows (snd (cancel id booking_filters rq_plain db0 ''b2''))) ''b2''
       = Inr (bk_confirmed\<lparr>status := ''canceled''\<rparr>)
   \<and> status (bk_confirmed\<lparr>status := ''canceled''\<rparr>) \<noteq> status bk_confirmed"
  by (simp add: cancel_def get_object_def get_object_or_404_def save_def sample_defs Let_def)

text \<open>
  C5, amended. \<open>canceled\<close> is terminal: on a booking with status \<open>canceled\<close> that the
  request's lookup resolves, neither \<open>confirm\<close> nor \<open>cancel\<close> changes anything in the
  store. A resolved booking with status \<open>confirmed\<close> is left as it is by \<open>confirm\<close>,
  while \<open>cancel\<close> moves it to \<open>canceled\<close>.
\<close>

theorem canceled_terminal_confirmed_cancellable:
  assumes "get_object booking_id fb rq (booking_rows db) pk = Inr b"
  shows "(status b = ''canceled'' \<longrightarrow>
            snd (confirm ser fb rq db pk) = db \<and> snd (cancel ser fb rq db pk) = db)
       \<and> (status b = ''confirmed'' \<longrightarrow>
            snd (confirm ser fb rq db pk) = db
          \<and> snd (cancel ser fb rq db pk) = save (b\<lparr>status := ''canceled''\<rparr>) db
          \<and> get_object_or_404 booking_id (booking_rows (snd (cancel ser fb rq db pk))) pk
              = Inr (b\<lparr>status := ''canceled''\<rparr>))"
proof (intro conjI impI)
  assume x: "status b = ''canceled''"
  then have "status b \<noteq> ''pending''"
    by simp
  from confirm_not_pending_result [OF assms this, of ser]
  show "snd (confirm ser fb rq db pk) = db"
    by simp
  from cancel_canceled_result [OF assms x, of ser]
  show "snd (cancel ser fb rq db pk) = db"
    by simp
next
  assume c: "status b = ''confirmed''"
  then have np: "status b \<noteq> ''pending''" and nc: "status b \<noteq> ''canceled''"
    by simp_all
  from confirm_not_pending_result [OF assms np, of ser]
  show "snd (confirm ser fb rq db pk) = db"
    by simp
  from cancel_not_canceled_result [OF assms nc, of ser]
  show "snd (cancel ser fb rq db pk) = save (b\<lparr>status := ''canceled''\<rparr>) db"
    by simp
  from assms nc show "get_object_or_404 booking_id
      (booking_rows (snd (cancel ser fb rq db pk))) pk = Inr (b\<lparr>status := ''canceled''\<rparr>)"
    by (simp add: cancel_lookup)
qed

theorem canceled_terminal_confirmed_cancellable_witness:
  "get_object booking_id booking_filters rq_plain (booking_rows db0) ''b3'' = Inr bk_canceled
   \<and> status bk_canceled = ''canceled''
   \<and> snd (confirm id booking_filters rq_plain db0 ''b3'') = db0
   \<and> snd (cancel id booking_filters rq_plain db0 ''b3'') = db0
   \<and> get_object booking_id booking_filters rq_plain (booking_rows db0) ''b2'' = Inr bk_confirmed
   \<and> status bk_confirmed = ''confirmed''
   \<and> snd (confirm id booking_filters rq_plain db0 ''b2'') = db0
   \<and> get_object_or_404 booking_id
        (booking_rows (snd (cancel id booking_filters rq_plain db0 ''b2''))) ''b2''
       = Inr (bk_confirmed\<lparr>status := ''canceled''\<rparr>)"
proof -
  have x1: "get_object booking_id booking_filters rq_plain (booking_rows db0) ''b3''
      = Inr bk_canceled"
    and c1: "get_object booking_id booking_filters rq_plain (booking_rows db0) ''b2''
      = Inr bk_confirmed"
    by (rule get_object_sample)+
  have x2: "status bk_canceled = ''canceled''"
    and c2: "status bk_confirmed = ''confirmed''"
    by (simp_all add: bk_canceled_def bk_confirmed_def)
  from canceled_terminal_confirmed_cancellable [OF x1, of id]
    canceled_terminal_confirmed_cancellable [OF c1, of id] x1 x2 c1 c2
  show ?thesis by blast
qed

text \<open>
  C6. The status stays inside the closed set: whatever stored booking \<open>k\<close> has a status
  among \<open>pending\<close>, \<open>confirmed\<close>, \<open>canceled\<close>, after a call of \<open>confirm\<close> or of \<open>cancel\<close>
  (with any request and filter backends, on any primary key, accepted or rejected)
  booking \<open>k\<close> is still in the store with a status of that set.
\<close>

theorem status_stays_in_choices:
  assumes "get_object_or_404 booking_id (booking_rows db) k = Inr b"
    and "status b \<in> set STATUS_CHOICES"
  shows "(\<exists>b'. get_object_or_404 booking_id
                 (booking_rows (snd (confirm ser fb rq db pk))) k = Inr b'
              \<and> status b' \<in> set STATUS_CHOICES)
       \<and> (\<exists>b'. get_object_or_404 booking_id
                 (booking_rows (snd (cancel ser fb rq db pk))) k = Inr b'
              \<and> status b' \<in> set STATUS_CHOICES)"
  using assms
  by (auto simp: confirm_lookup cancel_lookup STATUS_CHOICES_def split: sum.splits)

theorem status_stays_in_choices_witness:
  "get_object_or_404 booking_id (booking_rows db0) ''b1'' = Inr bk_pending
   \<and> status bk_pending \<in> set STATUS_CHOICES
   \<and> (\<exists>b'. get_object_or_404 booking_id
             (booking_rows (snd (confirm id booking_filters rq_plain db0 ''b1''))) ''b1''
             = Inr b'
          \<and> status b' \<in> set STATUS_CHOICES)
   \<and> (\<exists>b'. get_object_or_404 booking_id
             (booking_rows (snd (cancel id booking_filters rq_plain db0 ''b1''))) ''b1''
             = Inr b'
          \<and> status b' \<in> set STATUS_CHOICES)"
proof -
  have p1: "get_object_or_404 booking_id (booking_rows db0) ''b1'' = Inr bk_pending"
    by (simp add: get_object_or_404_def sample_defs)
  have p2: "status bk_pending \<in> set STATUS_CHOICES"
    by (simp add: bk_pending_def STATUS_CHOICES_def)
  from status_stays_in_choices [OF p1 p2, of id booking_filters rq_plain "''b1''"] p1 p2
  show ?thesis by blast
qed

text \<open>
  C7. For \<open>confirm\<close> and for \<open>cancel\<close>: a successful call makes exactly one write (one
  \<open>save\<close> is added to the record of writes), and a call that does not succeed leaves the
  whole store, and so every field of every booking, as it was.
\<close>

theorem one_write_on_success_none_on_failure:
  "(is_success (fst (confirm ser fb rq db pk)) \<longrightarrow>
      (\<exists>b. writes (snd (confirm ser fb rq db pk)) = writes db @ [b]))
   \<and> (\<not> is_success (fst (confirm ser fb rq db pk)) \<longrightarrow> snd (confirm ser fb rq db pk) = db)
   \<and> (is_success (fst (cancel ser fb rq db pk)) \<longrightarrow>
      (\<exists>b. writes (snd (cancel ser fb rq db pk)) = writes db @ [b]))
   \<and> (\<not> is_success (fst (cancel ser fb rq db pk)) \<longrightarrow> snd (cancel ser fb rq db pk) = db)"
proof (cases "get_object booking_id fb rq (booking_rows db) pk")
  case (Inl e)
  then show ?thesis
    by (simp add: confirm_not_found cancel_not_found is_success_def)
next
  case (Inr c)
  have conf: "(is_success (fst (confirm ser fb rq db pk)) \<longrightarrow>
      (\<exists>b. writes (snd (confirm ser fb rq db pk)) = writes db @ [b]))
   \<and> (\<not> is_success (fst (confirm ser fb rq db pk)) \<longrightarrow> snd (confirm ser fb rq db pk) = db)"
  proof (cases "status c = ''pending''")
    case True
    show ?thesis
      by (simp add: confirm_pending_result [OF Inr True] writes_save is_success_def)
  next
    case False
    show ?thesis
      by (simp add: confirm_not_pending_result [OF Inr False] is_success_def)
  qed
  have canc: "(is_success (fst (cancel ser fb rq db pk)) \<longrightarrow>
      (\<exists>b. writes (snd (cancel ser fb rq db pk)) = writes db @ [b]))
   \<and> (\<not> is_success (fst (cancel ser fb rq db pk)) \<longrightarrow> snd (cancel ser fb rq db pk) = db)"
  proof (cases "status c = ''canceled''")
    case True
    show ?thesis
      by (simp add: cancel_canceled_result [OF Inr True] is_success_def)
  next
    case False
    show ?thesis
      by (simp add: cancel_not_canceled_result [OF Inr False] writes_save is_success_def)
  qed
  from conf canc show ?thesis
    by blast
qed

theorem one_write_on_success_none_on_failure_witness:
  "is_success (fst (confirm id booking_filters rq_plain db0 ''b1''))
   \<and> (\<exists>b. writes (snd (confirm id booking_filters rq_plain db0 ''b1'')) = writes db0 @ [b])
   \<and> \<not> is_success (fst (confirm id booking_filters rq_plain db0 ''b2''))
   \<and> snd (confirm id booking_filters rq_plain db0 ''b2'') = db0
   \<and> is_success (fst (cancel id booking_filters rq_plain db0 ''b2''))
   \<and> (\<exists>b. writes (snd (cancel id booking_filters rq_plain db0 ''b2'')) = writes db0 @ [b])
   \<and> \<not> is_success (fst (cancel id booking_filters rq_plain db0 ''b3''))
   \<and> snd (cancel id booking_filters rq_plain db0 ''b3'') = db0
   \<and> \<not> is_success (fst (confirm id booking_filters rq_status_canceled db0 ''b1''))
   \<and> snd (confirm id booking_filters rq_status_canceled db0 ''b1'') = db0"
proof -
  have s1: "is_success (fst (confirm id booking_filters rq_plain db0 ''b1''))"
    by (simp add: confirm_def get_object_sample bk_pending_def is_success_def
          HTTP_200_OK_def Let_def)
  have f1: "\<not> is_success (fst (confirm id booking_filters rq_plain db0 ''b2''))"
    by (simp add: confirm_def get_object_sample bk_confirmed_def is_success_def
          HTTP_400_BAD_REQUEST_def)
  have s2: "is_success (fst (cancel id booking_filters rq_plain db0 ''b2''))"
    by (simp add: cancel_def get_object_sample bk_confirmed_def is_success_def
          HTTP_200_OK_def Let_def)
  have f2: "\<not> is_success (fst (cancel id booking_filters rq_plain db0 ''b3''))"
    by (simp add: cancel_def get_object_sample bk_canceled_def is_success_def
          HTTP_400_BAD_REQUEST_def)
  have f3: "\<not> is_success (fst (confirm id booking_filters rq_status_canceled db0 ''b1''))"
    by (simp add: hidden_by_filter_sample is_success_def)
  from one_write_on_success_none_on_failure [of id booking_filters rq_plain db0 "''b1''"]
    one_write_on_success_none_on_failure [of id booking_filters rq_plain db0 "''b2''"]
    one_write_on_success_none_on_failure [of id booking_filters rq_plain db0 "''b3''"]
    one_write_on_success_none_on_failure
      [of id booking_filters rq_status_canceled db0 "''b1''"]
    s1 f1 s2 f2 f3
  show ?thesis by blast
qed

text \<open>
  C8. On a booking with status \<open>confirmed\<close> that the request's lookup resolves, two calls
  of \<open>confirm\<close> in sequence give the same answer, the 400 response with the message "Only
  pending bookings can be confirmed.", and neither call writes: the store after each call
  is the store before.
\<close>

theorem confirm_failure_idempotent:
  assumes "get_object booking_id fb rq (booking_rows db) pk = Inr b"
    and "status b = ''confirmed''"
  shows "fst (confirm ser fb rq (snd (confirm ser fb rq db pk)) pk)
           = fst (confirm ser fb rq db pk)
       \<and> fst (confirm ser fb rq db pk)
           = Inr (Response (ErrorDict ''Only pending bookings can be confirmed.'') 400)
       \<and> snd (confirm ser fb rq db pk) = db
       \<and> snd (confirm ser fb rq (snd (confirm ser fb rq db pk)) pk) = db
       \<and> writes (snd (confirm ser fb rq db pk)) = writes db
       \<and> writes (snd (confirm ser fb rq (snd (confirm ser fb rq db pk)) pk)) = writes db"
proof -
  from assms(2) have "status b \<noteq> ''pending''"
    by simp
  from confirm_not_pending_result [OF assms(1) this, of ser] show ?thesis
    by simp
qed

theorem confirm_failure_idempotent_witness:
  "get_object booking_id booking_filters rq_plain (booking_rows db0) ''b2'' = Inr bk_confirmed
   \<and> status bk_confirmed = ''confirmed''
   \<and> fst (confirm id booking_filters rq_plain
            (snd (confirm id booking_filters rq_plain db0 ''b2'')) ''b2'')
       = fst (confirm id booking_filters rq_plain db0 ''b2'')
   \<and> fst (confirm id booking_filters rq_plain db0 ''b2'')
       = Inr (Response (ErrorDict ''Only pending bookings can be confirmed.'') 400)
   \<and> writes (snd (confirm id booking_filters rq_plain
                    (snd (confirm id booking_filters rq_plain db0 ''b2'')) ''b2''))
       = writes db0"
proof -
  have c1: "get_object booking_id booking_filters rq_plain (booking_rows db0) ''b2''
      = Inr bk_confirmed"
    by (rule get_object_sample)
  have c2: "status bk_confirmed = ''confirmed''"
    by (simp add: bk_confirmed_def)
  from confirm_failure_idempotent [OF c1 c2, of id] c1 c2 show ?thesis
    by blast
qed

text \<open>
  C9. For every user that the request's lookup resolves, \<open>properties\<close> succeeds exactly
  when the role is \<open>host\<close> or \<open>admin\<close>, and then answers 200 with the serialized list of
  the user's properties; for any other role it answers 400 with an error message and no
  property record.
\<close>

theorem properties_host_or_admin_only:
  assumes "get_object user_id fb rq (user_rows db) pk = Inr u"
  shows "(is_success (properties ser fb rq db pk) \<longleftrightarrow> role u = ''host'' \<or> role u = ''admin'')
       \<and> (role u = ''host'' \<or> role u = ''admin'' \<longrightarrow>
            properties ser fb rq db pk
              = Inr (Response (SerializedMany (map ser (properties_of db u))) 200))
       \<and> (\<not> (role u = ''host'' \<or> role u = ''admin'') \<longrightarrow>
            properties ser fb rq db pk
              = Inr (Response (ErrorDict ''User is not a host or admin.'') 400)
          \<and> is_client_error (properties ser fb rq db pk))"
  using assms
  by (simp add: properties_def is_success_def is_client_error_def HTTP_200_OK_def
        HTTP_400_BAD_REQUEST_def)

theorem properties_host_or_admin_only_witness:
  "get_object user_id user_filters rq_plain (user_rows db0) ''u1'' = Inr usr_host
   \<and> (role usr_host = ''host'' \<or> role usr_host = ''admin'')
   \<and> is_success (properties id user_filters rq_plain db0 ''u1'')
   \<and> properties id user_filters rq_plain db0 ''u1''
       = Inr (Response (SerializedMany [prop_one]) 200)
   \<and> get_object user_id user_filters rq_role_guest (user_rows db0) ''u2'' = Inr usr_guest
   \<and> \<not> (role usr_guest = ''host'' \<or> role usr_guest = ''admin'')
   \<and> \<not> is_success (properties id user_filters rq_role_guest db0 ''u2'')
   \<and> properties id user_filters rq_role_guest db0 ''u2''
       = Inr (Response (ErrorDict ''User is not a host or admin.'') 400)"
proof -
  have h1: "get_object user_id user_filters rq_plain (user_rows db0) ''u1'' = Inr usr_host"
    by (rule get_object_user_sample)
  have g1: "get_object user_id user_filters rq_role_guest (user_rows db0) ''u2''
      = Inr usr_guest"
    by (simp add: get_object_def get_object_or_404_def sample_defs)
  have h2: "role usr_host = ''host'' \<or> role usr_host = ''admin''"
    and g2: "\<not> (role usr_guest = ''host'' \<or> role usr_guest = ''admin'')"
    by (simp_all add: usr_host_def usr_guest_def)
  have props: "map id (properties_of db0 usr_host) = [prop_one]"
    by (simp add: properties_of_def sample_defs)
  from properties_host_or_admin_only [OF h1, of id]
    properties_host_or_admin_only [OF g1, of id] h1 h2 g1 g2 props
  show ?thesis by (simp add: is_success_def)
qed

text \<open>
  C10. \<open>cancel\<close> checks only that the status differs from \<open>canceled\<close>: for every booking
  the request's lookup resolves with any other status string, member of the enumeration
  or not, it succeeds with the 200 response, saves the booking with status \<open>canceled\<close>,
  and the row stored under the primary key afterwards is that instance.
\<close>

theorem cancel_any_status_but_canceled:
  assumes "get_object booking_id fb rq (booking_rows db) pk = Inr b"
    and "status b \<noteq> ''canceled''"
  shows "fst (cancel ser fb rq db pk)
           = Inr (Response (Serialized (ser (b\<lparr>status := ''canceled''\<rparr>))) 200)
       \<and> snd (cancel ser fb rq db pk) = save (b\<lparr>status := ''canceled''\<rparr>) db
       \<and> get_object_or_404 booking_id (booking_rows (snd (cancel ser fb rq db pk))) pk
           = Inr (b\<lparr>status := ''canceled''\<rparr>)"
proof -
  from assms(1) have "booking_id (b\<lparr>status := ''canceled''\<rparr>) = pk"
    by (simp add: get_object_key)
  with stored_after_save [of "b\<lparr>status := ''canceled''\<rparr>" db]
    cancel_not_canceled_result [OF assms, of ser]
  show ?thesis by simp
qed

theorem cancel_any_status_but_canceled_witness:
  "get_object booking_id booking_filters rq_plain (booking_rows db0) ''b4'' = Inr bk_archived
   \<and> status bk_archived \<noteq> ''canceled''
   \<and> status bk_archived \<notin> set STATUS_CHOICES
   \<and> fst (cancel id booking_filters rq_plain db0 ''b4'')
       = Inr (Response (Serialized (id (bk_archived\<lparr>status := ''canceled''\<rparr>))) 200)
   \<and> get_object_or_404 booking_id
        (booking_rows (snd (cancel id booking_filters rq_plain db0 ''b4''))) ''b4''
       = Inr (bk_archived\<lparr>status := ''canceled''\<rparr>)"
proof -
  have a1: "get_object booking_id booking_filters rq_plain (booking_rows db0) ''b4''
      = Inr bk_archived"
    by (rule get_object_sample)
  have a2: "status bk_archived \<noteq> ''canceled''"
    and a3: "status bk_archived \<notin> set STATUS_CHOICES"
    by (simp_all add: bk_archived_def STATUS_CHOICES_def)
  from cancel_any_status_but_canceled [OF a1 a2, of id] a1 a2 a3 show ?thesis
    by blast
qed

end
